theory Spec2Isabelle
  imports Complex_Main "HOL-Library.AList"
begin

section \<open>Strings\<close>

text \<open>
  Model names are Python \<open>str\<close> values. They are modelled as \<open>string\<close> (lists of
  8-bit characters); \<open>str.lower()\<close> is modelled on the ASCII letters, which is what
  Python does on ASCII text. The test \<open>sub in s\<close> on strings is the substring test.
\<close>

definition lower_char :: "char \<Rightarrow> char" where
  "lower_char c =
     (if 65 \<le> (of_char c :: nat) \<and> (of_char c :: nat) \<le> 90
      then char_of ((of_char c :: nat) + 32) else c)"

definition lower :: "string \<Rightarrow> string" where
  "lower s = map lower_char s"

fun starts_with :: "string \<Rightarrow> string \<Rightarrow> bool" where
  "starts_with s [] = True"
| "starts_with [] (p # ps) = False"
| "starts_with (c # cs) (p # ps) = (c = p \<and> starts_with cs ps)"

fun str_contains :: "string \<Rightarrow> string \<Rightarrow> bool" where
  "str_contains [] sub = (sub = [])"
| "str_contains (c # cs) sub = (starts_with (c # cs) sub \<or> str_contains cs sub)"

section \<open>models.py: the data model\<close>

text \<open>
  A \<open>datetime\<close> is modelled as an instant on the integer time line, counted in
  microseconds: the records of the data model carry timezone-aware timestamps, and Python
  compares those by instant. The range limits of \<open>datetime\<close> are not modelled.

  Python does not enforce the field annotations of a dataclass, and \<open>from_dict\<close> stores
  whatever JSON values the log line holds. The records \<open>TokenUsage\<close> and
  \<open>UsageEntry\<close> are therefore polymorphic in the types of these fields: \<open>from_dict\<close>
  builds them over \<open>json\<close>, and the aggregation works on the annotated instance
  (strings and integers).
\<close>

type_synonym datetime = int

record 'n TokenUsage =
  input_tokens :: 'n
  output_tokens :: 'n
  cache_creation_input_tokens :: 'n
  cache_read_input_tokens :: 'n

text \<open>The property \<open>TokenUsage.total_tokens\<close>.\<close>

definition usage_total_tokens :: "int TokenUsage \<Rightarrow> int" where
  "usage_total_tokens u =
     input_tokens u + output_tokens u +
     cache_creation_input_tokens u + cache_read_input_tokens u"

record ('s, 'm, 'n) UsageEntry =
  timestamp :: datetime
  session_id :: 's
  model :: 'm
  usage :: "'n TokenUsage"

text \<open>
  The constructor call
  \<open>UsageEntry(timestamp=t, session_id=s, model=m, usage=TokenUsage(a, b, c, d))\<close>.
\<close>

definition mk_UsageEntry ::
  "datetime \<Rightarrow> 's \<Rightarrow> 'm \<Rightarrow> 'n \<Rightarrow> 'n \<Rightarrow> 'n \<Rightarrow> 'n \<Rightarrow> ('s, 'm, 'n) UsageEntry" where
  "mk_UsageEntry t s m a b c d =
     \<lparr>timestamp = t, session_id = s, model = m,
      usage = \<lparr>input_tokens = a, output_tokens = b,
               cache_creation_input_tokens = c, cache_read_input_tokens = d\<rparr>\<rparr>"

subsection \<open>Decoded JSON values\<close>

text \<open>
  The argument of \<open>from_dict\<close> is the dict produced by \<open>json.loads\<close>. A decoded JSON
  value is \<open>None\<close>, a bool, an int, a float (a finite one, as a rational), a str, a list
  or a dict with string keys; a dict is an association list read with \<open>map_of\<close>.
\<close>

datatype json =
    JNull
  | JBool bool
  | JInt int
  | JFloat rat
  | JStr string
  | JList "json list"
  | JObj "(string \<times> json) list"

datatype py_error = KeyError | ValueError | AttributeError | ZeroDivisionError

text \<open>Truth value of a decoded value, as \<open>not usage_data\<close> tests it.\<close>

fun truthy :: "json \<Rightarrow> bool" where
  "truthy JNull = False"
| "truthy (JBool b) = b"
| "truthy (JInt n) = (n \<noteq> 0)"
| "truthy (JFloat r) = (r \<noteq> 0)"
| "truthy (JStr s) = (s \<noteq> [])"
| "truthy (JList xs) = (xs \<noteq> [])"
| "truthy (JObj kvs) = (kvs \<noteq> [])"

text \<open>\<open>d.get(k, default)\<close> on a dict.\<close>

definition dict_get :: "(string \<times> json) list \<Rightarrow> string \<Rightarrow> json \<Rightarrow> json" where
  "dict_get d k dflt = (case map_of d k of Some v \<Rightarrow> v | None \<Rightarrow> dflt)"

text \<open>
  \<open>x.get(k, default)\<close> on any decoded value: only a dict has the method \<open>get\<close>,
  every other value raises \<open>AttributeError\<close>.
\<close>

fun py_get :: "json \<Rightarrow> string \<Rightarrow> json \<Rightarrow> py_error + json" where
  "py_get (JObj d) k dflt = Inr (dict_get d k dflt)"
| "py_get x k dflt = Inl AttributeError"

text \<open>\<open>d[k]\<close> on a dict: \<open>KeyError\<close> when the key is absent.\<close>

definition dict_item :: "(string \<times> json) list \<Rightarrow> string \<Rightarrow> py_error + json" where
  "dict_item d k = (case map_of d k of Some v \<Rightarrow> Inr v | None \<Rightarrow> Inl KeyError)"

text \<open>\<open>s.replace("Z", "+00:00")\<close>: only a str has the method \<open>replace\<close>.\<close>

fun replace_Z :: "string \<Rightarrow> string" where
  "replace_Z [] = []"
| "replace_Z (c # cs) = (if c = CHR ''Z'' then ''+00:00'' @ replace_Z cs else c # replace_Z cs)"

fun py_replace_Z :: "json \<Rightarrow> py_error + string" where
  "py_replace_Z (JStr s) = Inr (replace_Z s)"
| "py_replace_Z x = Inl AttributeError"

subsection \<open>\<open>UsageEntry.from_dict\<close>\<close>

text \<open>
  The body of the \<open>try\<close> block. \<open>datetime.fromisoformat\<close> is a library function and
  an argument of the model: it returns the instant, or \<open>None\<close> where Python raises
  \<open>ValueError\<close>. The keyword arguments of the constructor call are evaluated in the
  order they are written.
\<close>

definition from_dict_try ::
  "(string \<Rightarrow> datetime option) \<Rightarrow> (string \<times> json) list \<Rightarrow>
     py_error + (json, json, json) UsageEntry option" where
  "from_dict_try fromisoformat data =
     (let message = dict_get data ''message'' (JObj []) in
      case py_get message ''usage'' (JObj []) of
        Inl e \<Rightarrow> Inl e
      | Inr usage_data \<Rightarrow>
          if \<not> truthy usage_data then Inr None
          else
            (case dict_item data ''timestamp'' of
               Inl e \<Rightarrow> Inl e
             | Inr ts \<Rightarrow>
            (case py_replace_Z ts of
               Inl e \<Rightarrow> Inl e
             | Inr iso_str \<Rightarrow>
            (case fromisoformat iso_str of
               None \<Rightarrow> Inl ValueError
             | Some t \<Rightarrow>
            (let sid = dict_get data ''sessionId'' (JStr ''unknown'') in
             case py_get message ''model'' (JStr ''unknown'') of
               Inl e \<Rightarrow> Inl e
             | Inr m \<Rightarrow>
            (case py_get usage_data ''input_tokens'' (JInt 0) of
               Inl e \<Rightarrow> Inl e
             | Inr tin \<Rightarrow>
            (case py_get usage_data ''output_tokens'' (JInt 0) of
               Inl e \<Rightarrow> Inl e
             | Inr tout \<Rightarrow>
            (case py_get usage_data ''cache_creation_input_tokens'' (JInt 0) of
               Inl e \<Rightarrow> Inl e
             | Inr tcc \<Rightarrow>
            (case py_get usage_data ''cache_read_input_tokens'' (JInt 0) of
               Inl e \<Rightarrow> Inl e
             | Inr tcr \<Rightarrow>
                 Inr (Some (mk_UsageEntry t sid m tin tout tcc tcr)))))))))))"

text \<open>
  The handler \<open>except (KeyError, ValueError): return None\<close>: these two errors become
  the result \<open>None\<close>, any other error leaves the function.
\<close>

definition from_dict ::
  "(string \<Rightarrow> datetime option) \<Rightarrow> (string \<times> json) list \<Rightarrow>
     py_error + (json, json, json) UsageEntry option" where
  "from_dict fromisoformat data =
     (case from_dict_try fromisoformat data of
        Inl e \<Rightarrow> if e = KeyError \<or> e = ValueError then Inr None else Inl e
      | Inr r \<Rightarrow> Inr r)"

subsection \<open>\<open>ModelStats\<close> and \<open>PeriodStats\<close>\<close>

text \<open>
  The field \<open>model\<close> of \<open>ModelStats\<close> is named \<open>stats_model\<close>, and the fields
  \<open>start\<close> and \<open>end\<close> of \<open>PeriodStats\<close> are named \<open>period_start\<close> and \<open>period_end\<close>.
  The dict \<open>models\<close> keeps its keys in insertion order; it is an association list with
  \<open>AList.update\<close> for \<open>d[k] = v\<close>.
\<close>

record ModelStats =
  stats_model :: string
  total_input :: int
  total_output :: int
  total_cache_create :: int
  total_cache_read :: int
  call_count :: int

text \<open>The constructor call \<open>ModelStats(model=m)\<close>, every counter at its default 0.\<close>

definition new_ModelStats :: "string \<Rightarrow> ModelStats" where
  "new_ModelStats m =
     \<lparr>stats_model = m, total_input = 0, total_output = 0, total_cache_create = 0,
      total_cache_read = 0, call_count = 0\<rparr>"

definition add_usage :: "ModelStats \<Rightarrow> int TokenUsage \<Rightarrow> ModelStats" where
  "add_usage s u =
     s\<lparr>total_input := total_input s + input_tokens u,
       total_output := total_output s + output_tokens u,
       total_cache_create := total_cache_create s + cache_creation_input_tokens u,
       total_cache_read := total_cache_read s + cache_read_input_tokens u,
       call_count := call_count s + 1\<rparr>"

text \<open>The property \<open>ModelStats.total_tokens\<close>.\<close>

definition stats_total_tokens :: "ModelStats \<Rightarrow> int" where
  "stats_total_tokens s =
     total_input s + total_output s + total_cache_create s + total_cache_read s"

record PeriodStats =
  period_start :: datetime
  period_end :: datetime
  models :: "(string \<times> ModelStats) list"
  session_count :: int

text \<open>The properties \<open>PeriodStats.total_tokens\<close> and \<open>PeriodStats.total_calls\<close>.\<close>

definition total_tokens :: "PeriodStats \<Rightarrow> int" where
  "total_tokens p = sum_list (map (\<lambda>(k, m). stats_total_tokens m) (models p))"

definition total_calls :: "PeriodStats \<Rightarrow> int" where
  "total_calls p = sum_list (map (\<lambda>(k, m). call_count m) (models p))"

section \<open>parser.py: period filter and aggregation\<close>

text \<open>
  \<open>filter_by_period\<close> reads the clock twice when a day-count is given. The two values
  of \<open>datetime.now().astimezone()\<close> are the arguments \<open>now1\<close> and \<open>now2\<close> of the
  model. \<open>timedelta(days=d)\<close> is \<open>d\<close> days in microseconds. A \<open>datetime\<close> is always
  true in a condition, so \<open>if start and ts < start\<close> tests that \<open>start\<close> is not
  \<open>None\<close> and that \<open>ts < start\<close>. The parameter \<open>end\<close> is named \<open>stop\<close>.
\<close>

definition timedelta_days :: "int \<Rightarrow> int" where
  "timedelta_days d = d * 86400000000"

text \<open>The loop \<open>for entry in entries\<close> that appends the retained entries.\<close>

fun filter_loop ::
  "datetime option \<Rightarrow> datetime option \<Rightarrow> ('s, 'm, 'n) UsageEntry list \<Rightarrow>
     ('s, 'm, 'n) UsageEntry list" where
  "filter_loop start stop [] = []"
| "filter_loop start stop (entry # entries) =
     (let ts = timestamp entry in
      if (case start of Some s \<Rightarrow> ts < s | None \<Rightarrow> False)
        then filter_loop start stop entries
      else if (case stop of Some e \<Rightarrow> ts > e | None \<Rightarrow> False)
        then filter_loop start stop entries
      else entry # filter_loop start stop entries)"

definition filter_by_period ::
  "datetime \<Rightarrow> datetime \<Rightarrow> ('s, 'm, 'n) UsageEntry list \<Rightarrow>
     int option \<Rightarrow> datetime option \<Rightarrow> datetime option \<Rightarrow> ('s, 'm, 'n) UsageEntry list" where
  "filter_by_period now1 now2 entries days start stop =
     (let (start', stop') =
            (case days of
               Some d \<Rightarrow> (Some (now1 - timedelta_days d), Some now2)
             | None \<Rightarrow> (start, stop))
      in if start' = None \<and> stop' = None then entries
         else filter_loop start' stop' entries)"

text \<open>
  The loop of \<open>aggregate_stats\<close> over the set \<open>sessions\<close> and the dict
  \<open>stats.models\<close>: the entry for a new model name is created first, then the entry of
  the model is updated in place.
\<close>

fun aggregate_loop ::
  "(string, string, int) UsageEntry list \<Rightarrow> string set \<times> (string \<times> ModelStats) list \<Rightarrow>
     string set \<times> (string \<times> ModelStats) list" where
  "aggregate_loop [] st = st"
| "aggregate_loop (entry # entries) (sessions, ms) =
     (let sessions' = insert (session_id entry) sessions;
          ms' = (if map_of ms (model entry) = None
                 then AList.update (model entry) (new_ModelStats (model entry)) ms
                 else ms);
          ms'' = AList.map_entry (model entry) (\<lambda>s. add_usage s (usage entry)) ms'
      in aggregate_loop entries (sessions', ms''))"

text \<open>
  \<open>aggregate_stats\<close>; \<open>now\<close> is the value of \<open>datetime.now().astimezone()\<close>, read
  when the list is empty.
\<close>

definition aggregate_stats ::
  "datetime \<Rightarrow> (string, string, int) UsageEntry list \<Rightarrow> PeriodStats" where
  "aggregate_stats now entries =
     (if entries = []
      then \<lparr>period_start = now, period_end = now, models = [], session_count = 0\<rparr>
      else
        (let (sessions, ms) = aggregate_loop entries ({}, [])
         in \<lparr>period_start = timestamp (hd entries),
             period_end = timestamp (last entries),
             models = ms,
             session_count = int (card sessions)\<rparr>))"

section \<open>calculator.py: pricing table and tier classification\<close>

text \<open>
  \<open>ModelPricing\<close> holds four Python floats. The rates are literals that are only
  stored, compared and multiplied; they are modelled as exact rationals, so floating-point
  rounding is not part of the model. The fields \<open>input\<close>, \<open>output\<close>, \<open>cache_create\<close>
  and \<open>cache_read\<close> carry the prefix \<open>p_\<close> (\<open>output\<close> is a keyword of Isabelle).
\<close>

record ModelPricing =
  p_input :: rat
  p_output :: rat
  p_cache_create :: rat
  p_cache_read :: rat

definition mk_ModelPricing :: "rat \<Rightarrow> rat \<Rightarrow> rat \<Rightarrow> rat \<Rightarrow> ModelPricing" where
  "mk_ModelPricing i out cc cr =
     \<lparr>p_input = i, p_output = out, p_cache_create = cc, p_cache_read = cr\<rparr>"

text \<open>
  The module-level dict \<open>PRICING\<close>, with its entries in source order. The parameter
  \<open>model\<close> of \<open>get_pricing\<close> and \<open>get_model_tier\<close> is named \<open>name\<close>.
\<close>

definition PRICING :: "(string \<times> ModelPricing) list" where
  "PRICING =
    [(''claude-opus-4-5-20251101'', mk_ModelPricing 15.0 75.0 18.75 1.50),
     (''claude-3-opus-20240229'', mk_ModelPricing 15.0 75.0 18.75 1.50),
     (''claude-sonnet-4-5-20250929'', mk_ModelPricing 3.0 15.0 3.75 0.30),
     (''claude-3-5-sonnet-20241022'', mk_ModelPricing 3.0 15.0 3.75 0.30),
     (''claude-3-5-sonnet-20240620'', mk_ModelPricing 3.0 15.0 3.75 0.30),
     (''claude-3-sonnet-20240229'', mk_ModelPricing 3.0 15.0 3.75 0.30),
     (''claude-3-5-haiku-20241022'', mk_ModelPricing 0.25 1.25 0.30 0.03),
     (''claude-3-haiku-20240307'', mk_ModelPricing 0.25 1.25 0.30 0.03)]"

definition get_pricing :: "string \<Rightarrow> ModelPricing" where
  "get_pricing name =
     (case map_of PRICING name of
        Some p \<Rightarrow> p
      | None \<Rightarrow>
          (let model_lower = lower name in
           if str_contains model_lower ''opus'' then mk_ModelPricing 15.0 75.0 18.75 1.50
           else if str_contains model_lower ''haiku'' then mk_ModelPricing 0.25 1.25 0.30 0.03
           else mk_ModelPricing 3.0 15.0 3.75 0.30))"

definition get_model_tier :: "string \<Rightarrow> string" where
  "get_model_tier name =
     (let model_lower = lower name in
      if str_contains model_lower ''opus'' then ''Opus''
      else if str_contains model_lower ''haiku'' then ''Haiku''
      else ''Sonnet'')"

section \<open>calculator.py: costs and plan usage\<close>

text \<open>Costs are Python floats; they are modelled as exact rationals, like the rates.\<close>

definition calculate_model_cost :: "ModelStats \<Rightarrow> rat" where
  "calculate_model_cost stats =
     (let pricing = get_pricing (stats_model stats) in
      0 + (of_int (total_input stats) / 1000000) * p_input pricing
        + (of_int (total_output stats) / 1000000) * p_output pricing
        + (of_int (total_cache_create stats) / 1000000) * p_cache_create pricing
        + (of_int (total_cache_read stats) / 1000000) * p_cache_read pricing)"

definition calculate_period_cost :: "PeriodStats \<Rightarrow> (string \<times> rat) list" where
  "calculate_period_cost stats =
     fold (\<lambda>(m, model_stats) costs. AList.update m (calculate_model_cost model_stats) costs)
       (models stats) []"

definition total_cost :: "PeriodStats \<Rightarrow> rat" where
  "total_cost stats = sum_list (map snd (calculate_period_cost stats))"

record PlanLimit =
  tokens :: int
  cost :: rat
  messages :: int

text \<open>The module-level dict \<open>PLAN_LIMITS\<close>.\<close>

definition PLAN_LIMITS :: "(string \<times> PlanLimit) list" where
  "PLAN_LIMITS =
    [(''pro'', \<lparr>tokens = 19000, cost = 18.0, messages = 250\<rparr>),
     (''max5'', \<lparr>tokens = 88000, cost = 35.0, messages = 1000\<rparr>),
     (''max20'', \<lparr>tokens = 220000, cost = 140.0, messages = 2000\<rparr>)]"

text \<open>The dict returned by \<open>estimate_plan_usage\<close>, one field for each of its keys.\<close>

record PlanUsage =
  plan :: string
  cost_used :: rat
  cost_limit :: rat
  cost_percent :: rat
  calls_used :: int
  calls_limit :: int
  calls_percent :: rat

text \<open>
  The division \<open>a / b\<close> of Python raises \<open>ZeroDivisionError\<close> when \<open>b\<close> is zero.
\<close>

definition py_truediv :: "rat \<Rightarrow> rat \<Rightarrow> py_error + rat" where
  "py_truediv a b = (if b = 0 then Inl ZeroDivisionError else Inr (a / b))"

text \<open>The expression \<open>(used / limit) * 100 if limit > 0 else 0\<close>.\<close>

definition percent_of_limit :: "rat \<Rightarrow> rat \<Rightarrow> py_error + rat" where
  "percent_of_limit used limit =
     (if limit > 0
      then (case py_truediv used limit of Inl e \<Rightarrow> Inl e | Inr q \<Rightarrow> Inr (q * 100))
      else Inr 0)"

text \<open>
  \<open>estimate_plan_usage\<close> reads the module-level dict of plan limits. The body of the
  function is \<open>estimate_plan_usage_with\<close>, which takes the dict as an argument, so that
  its guards on a limit of zero can be stated for a plan that \<open>PLAN_LIMITS\<close> does not
  hold; \<open>estimate_plan_usage\<close> is the function on \<open>PLAN_LIMITS\<close>. The values of the
  returned dict are evaluated in the order they are written. The parameter \<open>plan\<close>
  is named \<open>pl\<close>.
\<close>

definition estimate_plan_usage_with ::
  "(string \<times> PlanLimit) list \<Rightarrow> PeriodStats \<Rightarrow> string \<Rightarrow> py_error + PlanUsage option" where
  "estimate_plan_usage_with plan_limits stats pl =
     (case map_of plan_limits pl of
        None \<Rightarrow> Inr None
      | Some limits \<Rightarrow>
          (let c = total_cost stats in
           case percent_of_limit c (cost limits) of
             Inl e \<Rightarrow> Inl e
           | Inr cp \<Rightarrow>
          (case percent_of_limit (of_int (total_calls stats)) (of_int (messages limits)) of
             Inl e \<Rightarrow> Inl e
           | Inr mp \<Rightarrow>
               Inr (Some \<lparr>plan = pl,
                          cost_used = c,
                          cost_limit = cost limits,
                          cost_percent = cp,
                          calls_used = total_calls stats,
                          calls_limit = messages limits,
                          calls_percent = mp\<rparr>))))"

definition estimate_plan_usage :: "PeriodStats \<Rightarrow> string \<Rightarrow> py_error + PlanUsage option" where
  "estimate_plan_usage stats pl = estimate_plan_usage_with PLAN_LIMITS stats pl"

section \<open>Facts about the string operations\<close>

lemma starts_with_iff: "starts_with s p \<longleftrightarrow> (\<exists>ss. s = p @ ss)"
  by (induction s p rule: starts_with.induct) auto

lemma str_contains_iff: "str_contains s sub \<longleftrightarrow> (\<exists>ps ss. s = ps @ sub @ ss)"
proof (induction s)
  case Nil
  then show ?case by auto
next
  case (Cons c cs)
  show ?case
  proof
    assume "str_contains (c # cs) sub"
    then consider "starts_with (c # cs) sub" | "str_contains cs sub" by auto
    then show "\<exists>ps ss. c # cs = ps @ sub @ ss"
    proof cases
      case 1
      then obtain ss where "c # cs = sub @ ss" by (auto simp: starts_with_iff)
      then have "c # cs = [] @ sub @ ss" by simp
      then show ?thesis by blast
    next
      case 2
      then obtain ps ss where "cs = ps @ sub @ ss" using Cons.IH by blast
      then have "c # cs = (c # ps) @ sub @ ss" by simp
      then show ?thesis by blast
    qed
  next
    assume "\<exists>ps ss. c # cs = ps @ sub @ ss"
    then obtain ps ss where eq: "c # cs = ps @ sub @ ss" by blast
    show "str_contains (c # cs) sub"
    proof (cases ps)
      case Nil
      then have "starts_with (c # cs) sub" using eq by (auto simp: starts_with_iff)
      then show ?thesis by simp
    next
      case (Cons q qs)
      then have "cs = qs @ sub @ ss" using eq by simp
      then have "str_contains cs sub" using Cons.IH by blast
      then show ?thesis by simp
    qed
  qed
qed

section \<open>Facts about the pricing lookup\<close>

lemma get_pricing_hit: "map_of PRICING name = Some p \<Longrightarrow> get_pricing name = p"
  by (simp add: get_pricing_def)

lemma get_pricing_miss:
  "map_of PRICING name = None \<Longrightarrow>
   get_pricing name =
     (if str_contains (lower name) ''opus'' then mk_ModelPricing 15.0 75.0 18.75 1.50
      else if str_contains (lower name) ''haiku'' then mk_ModelPricing 0.25 1.25 0.30 0.03
      else mk_ModelPricing 3.0 15.0 3.75 0.30)"
  by (simp add: get_pricing_def Let_def)

lemma PRICING_keys:
  "map_of PRICING name = Some p \<Longrightarrow>
   name \<in> {''claude-opus-4-5-20251101'', ''claude-3-opus-20240229'',
            ''claude-sonnet-4-5-20250929'', ''claude-3-5-sonnet-20241022'',
            ''claude-3-5-sonnet-20240620'', ''claude-3-sonnet-20240229'',
            ''claude-3-5-haiku-20241022'', ''claude-3-haiku-20240307''}"
proof -
  assume "map_of PRICING name = Some p"
  then have "name \<in> fst ` set PRICING" by (rule map_of_SomeD [THEN imageI [where f = fst], simplified])
  then show ?thesis by (simp add: PRICING_def)
qed

lemma lower_key_simps:
  "lower ''claude-opus-4-5-20251101'' = ''claude-opus-4-5-20251101''"
  "lower ''claude-3-opus-20240229'' = ''claude-3-opus-20240229''"
  "lower ''claude-sonnet-4-5-20250929'' = ''claude-sonnet-4-5-20250929''"
  "lower ''claude-3-5-sonnet-20241022'' = ''claude-3-5-sonnet-20241022''"
  "lower ''claude-3-5-sonnet-20240620'' = ''claude-3-5-sonnet-20240620''"
  "lower ''claude-3-sonnet-20240229'' = ''claude-3-sonnet-20240229''"
  "lower ''claude-3-5-haiku-20241022'' = ''claude-3-5-haiku-20241022''"
  "lower ''claude-3-haiku-20240307'' = ''claude-3-haiku-20240307''"
  by (simp_all add: lower_def lower_char_def)

text \<open>
  Each entry of the table carries the rates of the tier that the substring rule gives
  its key, so the lookup agrees with the substring rule on the keys as well.
\<close>

lemma get_pricing_by_tier:
  "get_pricing name =
     (if str_contains (lower name) ''opus'' then mk_ModelPricing 15.0 75.0 18.75 1.50
      else if str_contains (lower name) ''haiku'' then mk_ModelPricing 0.25 1.25 0.30 0.03
      else mk_ModelPricing 3.0 15.0 3.75 0.30)"
proof (cases "map_of PRICING name")
  case None
  then show ?thesis by (rule get_pricing_miss)
next
  case (Some p)
  from PRICING_keys [OF Some] show ?thesis
    by (elim insertE emptyE) (simp_all add: get_pricing_def PRICING_def lower_key_simps)
qed

section \<open>Facts about the period filter\<close>

text \<open>
  The loop keeps the entries inside the bounds that are given, in the order of the list.
\<close>

lemma filter_loop_filter:
  "filter_loop start stop entries =
     filter (\<lambda>r. (case start of Some s \<Rightarrow> s \<le> timestamp r | None \<Rightarrow> True) \<and>
                 (case stop of Some e \<Rightarrow> timestamp r \<le> e | None \<Rightarrow> True)) entries"
  by (induction entries) (auto simp: Let_def split: option.splits)

lemma filter_loop_idem:
  "filter_loop start stop (filter_loop start stop entries) = filter_loop start stop entries"
  by (simp add: filter_loop_filter)

lemma filter_by_period_no_days:
  "filter_by_period now1 now2 entries None start stop =
     (if start = None \<and> stop = None then entries else filter_loop start stop entries)"
  by (simp add: filter_by_period_def)

lemma filter_by_period_days:
  "filter_by_period now1 now2 entries (Some d) start stop =
     filter_loop (Some (now1 - timedelta_days d)) (Some now2) entries"
  by (simp add: filter_by_period_def)

section \<open>Facts about the aggregation\<close>

text \<open>
  Sums over the values of the dict \<open>models\<close>: storing a new key adds its value,
  changing the value of a present key replaces its contribution.
\<close>

lemma sum_list_update_new:
  "map_of al k = None \<Longrightarrow>
   sum_list (map (\<lambda>(k, v). g v) (AList.update k v al)) =
     sum_list (map (\<lambda>(k, v). g v) al) + (g v :: int)"
  by (induction al) (auto split: if_splits)

lemma sum_list_map_entry:
  "map_of al k = Some v \<Longrightarrow>
   sum_list (map (\<lambda>(k, v). g v) (AList.map_entry k f al)) =
     sum_list (map (\<lambda>(k, v). g v) al) - g v + (g (f v) :: int)"
  by (induction al) (auto split: if_splits)

lemma map_of_update_same: "map_of (AList.update k v al) k = Some v"
  by (simp add: AList.update_conv')

text \<open>One pass of the loop body over the dict \<open>models\<close>.\<close>

lemma models_step_sum:
  assumes g0: "g (new_ModelStats k) = 0"
  shows "sum_list (map (\<lambda>(k, v). g v)
           (AList.map_entry k (\<lambda>s. add_usage s u)
              (if map_of ms k = None then AList.update k (new_ModelStats k) ms else ms))) =
         sum_list (map (\<lambda>(k, v). g v) ms) +
           (case map_of ms k of
              None \<Rightarrow> g (add_usage (new_ModelStats k) u)
            | Some s \<Rightarrow> g (add_usage s u) - (g s :: int))"
proof (cases "map_of ms k")
  case None
  have "sum_list (map (\<lambda>(k, v). g v)
           (AList.map_entry k (\<lambda>s. add_usage s u) (AList.update k (new_ModelStats k) ms))) =
        sum_list (map (\<lambda>(k, v). g v) (AList.update k (new_ModelStats k) ms))
          - g (new_ModelStats k) + g (add_usage (new_ModelStats k) u)"
    by (rule sum_list_map_entry) (rule map_of_update_same)
  also have "\<dots> = sum_list (map (\<lambda>(k, v). g v) ms) + g (add_usage (new_ModelStats k) u)"
    using None by (simp add: sum_list_update_new g0)
  finally show ?thesis using None by simp
next
  case (Some s)
  then show ?thesis by (simp add: sum_list_map_entry)
qed

lemma call_count_step:
  "sum_list (map (\<lambda>(k, v). call_count v)
     (AList.map_entry k (\<lambda>s. add_usage s u)
        (if map_of ms k = None then AList.update k (new_ModelStats k) ms else ms))) =
   sum_list (map (\<lambda>(k, v). call_count v) ms) + 1"
  by (subst models_step_sum)
    (simp_all add: new_ModelStats_def add_usage_def split: option.splits)

lemma total_tokens_step:
  "sum_list (map (\<lambda>(k, v). stats_total_tokens v)
     (AList.map_entry k (\<lambda>s. add_usage s u)
        (if map_of ms k = None then AList.update k (new_ModelStats k) ms else ms))) =
   sum_list (map (\<lambda>(k, v). stats_total_tokens v) ms) + usage_total_tokens u"
  by (subst models_step_sum)
    (simp_all add: new_ModelStats_def add_usage_def stats_total_tokens_def
      usage_total_tokens_def split: option.splits)

lemma aggregate_loop_calls:
  "sum_list (map (\<lambda>(k, v). call_count v) (snd (aggregate_loop entries (sessions, ms)))) =
   sum_list (map (\<lambda>(k, v). call_count v) ms) + int (length entries)"
proof (induction entries arbitrary: sessions ms)
  case Nil
  then show ?case by simp
next
  case (Cons entry entries)
  show ?case
    by (simp add: Let_def Cons.IH call_count_step del: AList.map_entry.simps)
qed

lemma aggregate_loop_tokens:
  "sum_list (map (\<lambda>(k, v). stats_total_tokens v)
     (snd (aggregate_loop entries (sessions, ms)))) =
   sum_list (map (\<lambda>(k, v). stats_total_tokens v) ms) +
     sum_list (map (\<lambda>e. usage_total_tokens (usage e)) entries)"
proof (induction entries arbitrary: sessions ms)
  case Nil
  then show ?case by simp
next
  case (Cons entry entries)
  show ?case
    by (simp add: Let_def Cons.IH total_tokens_step del: AList.map_entry.simps)
qed

lemma aggregate_stats_empty:
  "aggregate_stats now [] =
     \<lparr>period_start = now, period_end = now, models = [], session_count = 0\<rparr>"
  by (simp add: aggregate_stats_def)

lemma aggregate_stats_nonempty:
  "entries \<noteq> [] \<Longrightarrow>
   aggregate_stats now entries =
     \<lparr>period_start = timestamp (hd entries),
      period_end = timestamp (last entries),
      models = snd (aggregate_loop entries ({}, [])),
      session_count = int (card (fst (aggregate_loop entries ({}, []))))\<rparr>"
  by (simp add: aggregate_stats_def split: prod.splits)

section \<open>Facts about \<open>UsageEntry.from_dict\<close>\<close>

lemma py_get_Inr:
  "py_get x k dflt = Inr v \<Longrightarrow> \<exists>d. x = JObj d \<and> v = dict_get d k dflt"
  by (cases x) auto

lemma truthy_JObj: "truthy u \<Longrightarrow> py_get u k dflt = Inr v \<Longrightarrow> \<exists>d. u = JObj d \<and> d \<noteq> []"
  by (cases u) auto

text \<open>The test \<open>if not usage_data: return None\<close> comes before every other step.\<close>

lemma from_dict_try_falsy:
  "py_get (dict_get data ''message'' (JObj [])) ''usage'' (JObj []) = Inr u \<Longrightarrow>
   \<not> truthy u \<Longrightarrow> from_dict_try fromisoformat data = Inr None"
  by (simp add: from_dict_try_def Let_def)

lemma from_dict_falsy:
  "py_get (dict_get data ''message'' (JObj [])) ''usage'' (JObj []) = Inr u \<Longrightarrow>
   \<not> truthy u \<Longrightarrow> from_dict fromisoformat data = Inr None"
  by (simp add: from_dict_def from_dict_try_falsy)

lemma from_dict_try_Some:
  assumes "from_dict_try fromisoformat data = Inr (Some entry)"
  shows "\<exists>u d. py_get (dict_get data ''message'' (JObj [])) ''usage'' (JObj []) = Inr u \<and>
           u = JObj d \<and> d \<noteq> []"
proof -
  from assms obtain u where
    u: "py_get (dict_get data ''message'' (JObj [])) ''usage'' (JObj []) = Inr u"
    and t: "truthy u"
    and g: "\<exists>v. py_get u ''input_tokens'' (JInt 0) = Inr v"
    by (auto simp: from_dict_try_def Let_def split: sum.splits if_splits option.splits)
  from g obtain v where "py_get u ''input_tokens'' (JInt 0) = Inr v" by blast
  with t obtain d where "u = JObj d" "d \<noteq> []" by (blast dest: truthy_JObj)
  with u show ?thesis by blast
qed

lemma from_dict_Some:
  assumes "from_dict fromisoformat data = Inr (Some entry)"
  shows "\<exists>msg d. map_of data ''message'' = Some (JObj msg) \<and>
           map_of msg ''usage'' = Some (JObj d) \<and> d \<noteq> []"
proof -
  from assms have "from_dict_try fromisoformat data = Inr (Some entry)"
    by (auto simp: from_dict_def split: sum.splits if_splits)
  then obtain d where
    u: "py_get (dict_get data ''message'' (JObj [])) ''usage'' (JObj []) = Inr (JObj d)"
    and d: "d \<noteq> []"
    by (blast dest: from_dict_try_Some)
  from u obtain msg where m: "dict_get data ''message'' (JObj []) = JObj msg"
    and m': "JObj d = dict_get msg ''usage'' (JObj [])"
    by (blast dest: py_get_Inr)
  from m' d have "map_of msg ''usage'' = Some (JObj d)"
    by (auto simp: dict_get_def split: option.splits)
  moreover from this m have "map_of data ''message'' = Some (JObj msg)"
    by (auto simp: dict_get_def split: option.splits)
  ultimately show ?thesis using d by blast
qed

text \<open>
  A message that is present and is not a dict has no method \<open>get\<close>: the call raises
  \<open>AttributeError\<close>, which the handler does not catch.
\<close>

lemma from_dict_message_not_dict:
  assumes "map_of data ''message'' = Some x" and "\<forall>msg. x \<noteq> JObj msg"
  shows "from_dict fromisoformat data = Inl AttributeError"
proof -
  from assms(2) have "py_get x ''usage'' (JObj []) = Inl AttributeError"
    by (cases x) simp_all
  with assms(1) show ?thesis
    by (simp add: from_dict_def from_dict_try_def dict_get_def)
qed

text \<open>
  Where the message is absent or is a dict, the test on the usage block decides: with
  no usage block, or with one that is empty (\<open>{}\<close>, or any other value that is false in
  a condition), \<open>from_dict\<close> returns \<open>None\<close>, not a record with zero usage. For every
  decoded log line, \<open>from_dict\<close> returns a \<open>UsageEntry\<close> only when the message holds
  a usage block that is a non-empty dict.
\<close>

lemma from_dict_usage_gate:
  "(map_of data ''message'' = None \<longrightarrow> from_dict fromisoformat data = Inr None) \<and>
   (\<forall>msg. map_of data ''message'' = Some (JObj msg) \<and> map_of msg ''usage'' = None \<longrightarrow>
      from_dict fromisoformat data = Inr None) \<and>
   (\<forall>msg. map_of data ''message'' = Some (JObj msg) \<and>
      map_of msg ''usage'' = Some (JObj []) \<longrightarrow>
      from_dict fromisoformat data = Inr None) \<and>
   (\<forall>msg u. map_of data ''message'' = Some (JObj msg) \<and>
      map_of msg ''usage'' = Some u \<and> \<not> truthy u \<longrightarrow>
      from_dict fromisoformat data = Inr None) \<and>
   (\<forall>entry. from_dict fromisoformat data = Inr (Some entry) \<longrightarrow>
      (\<exists>msg d. map_of data ''message'' = Some (JObj msg) \<and>
         map_of msg ''usage'' = Some (JObj d) \<and> d \<noteq> []))"
proof (intro conjI allI impI)
  assume "map_of data ''message'' = None"
  then have "py_get (dict_get data ''message'' (JObj [])) ''usage'' (JObj []) = Inr (JObj [])"
    by (simp add: dict_get_def)
  then show "from_dict fromisoformat data = Inr None"
    by (rule from_dict_falsy) simp
next
  fix msg
  assume "map_of data ''message'' = Some (JObj msg) \<and> map_of msg ''usage'' = None"
  then have "py_get (dict_get data ''message'' (JObj [])) ''usage'' (JObj []) = Inr (JObj [])"
    by (simp add: dict_get_def)
  then show "from_dict fromisoformat data = Inr None"
    by (rule from_dict_falsy) simp
next
  fix msg
  assume "map_of data ''message'' = Some (JObj msg) \<and> map_of msg ''usage'' = Some (JObj [])"
  then have "py_get (dict_get data ''message'' (JObj [])) ''usage'' (JObj []) = Inr (JObj [])"
    by (simp add: dict_get_def)
  then show "from_dict fromisoformat data = Inr None"
    by (rule from_dict_falsy) simp
next
  fix msg u
  assume a: "map_of data ''message'' = Some (JObj msg) \<and> map_of msg ''usage'' = Some u \<and>
    \<not> truthy u"
  then have "py_get (dict_get data ''message'' (JObj [])) ''usage'' (JObj []) = Inr u"
    by (simp add: dict_get_def)
  then show "from_dict fromisoformat data = Inr None"
    using a by (blast intro: from_dict_falsy)
next
  fix entry
  assume "from_dict fromisoformat data = Inr (Some entry)"
  then show "\<exists>msg d. map_of data ''message'' = Some (JObj msg) \<and>
         map_of msg ''usage'' = Some (JObj d) \<and> d \<noteq> []"
    by (rule from_dict_Some)
qed

lemma from_dict_usage_gate_example:
  "map_of [(''timestamp'', JStr ''2024-01-01T00:00:00Z''), (''sessionId'', JStr ''s1'')]
     ''message'' = None \<and>
   from_dict (\<lambda>s. if s = ''2024-01-01T00:00:00+00:00'' then Some 1704067200000000 else None)
     [(''timestamp'', JStr ''2024-01-01T00:00:00Z''), (''sessionId'', JStr ''s1'')] = Inr None \<and>
   map_of [(''timestamp'', JStr ''2024-01-01T00:00:00Z''),
           (''message'', JObj [(''model'', JStr ''claude-3-opus-20240229''),
                               (''usage'', JObj [])])]
     ''message'' =
     Some (JObj [(''model'', JStr ''claude-3-opus-20240229''), (''usage'', JObj [])]) \<and>
   map_of [(''model'', JStr ''claude-3-opus-20240229''), (''usage'', JObj [])] ''usage'' =
     Some (JObj []) \<and>
   from_dict (\<lambda>s. if s = ''2024-01-01T00:00:00+00:00'' then Some 1704067200000000 else None)
     [(''timestamp'', JStr ''2024-01-01T00:00:00Z''),
      (''message'', JObj [(''model'', JStr ''claude-3-opus-20240229''),
                          (''usage'', JObj [])])] = Inr None \<and>
   from_dict (\<lambda>s. if s = ''2024-01-01T00:00:00+00:00'' then Some 1704067200000000 else None)
     [(''timestamp'', JStr ''2024-01-01T00:00:00Z''),
      (''message'', JObj [(''model'', JStr ''claude-3-opus-20240229''),
                          (''usage'', JObj [(''input_tokens'', JInt 5)])])] =
     Inr (Some (mk_UsageEntry 1704067200000000 (JStr ''unknown'')
                  (JStr ''claude-3-opus-20240229'') (JInt 5) (JInt 0) (JInt 0) (JInt 0))) \<and>
   (\<exists>msg d.
      map_of [(''timestamp'', JStr ''2024-01-01T00:00:00Z''),
              (''message'', JObj [(''model'', JStr ''claude-3-opus-20240229''),
                                  (''usage'', JObj [(''input_tokens'', JInt 5)])])]
        ''message'' = Some (JObj msg) \<and>
      map_of msg ''usage'' = Some (JObj d) \<and> d \<noteq> [])"
proof -
  let ?f = "\<lambda>s. if s = ''2024-01-01T00:00:00+00:00'' then Some (1704067200000000 :: int)
                else None"
  let ?d1 = "[(''timestamp'', JStr ''2024-01-01T00:00:00Z''), (''sessionId'', JStr ''s1'')]"
  let ?m2 = "[(''model'', JStr ''claude-3-opus-20240229''), (''usage'', JObj [])]"
  let ?d2 = "[(''timestamp'', JStr ''2024-01-01T00:00:00Z''), (''message'', JObj ?m2)]"
  let ?d3 = "[(''timestamp'', JStr ''2024-01-01T00:00:00Z''),
              (''message'', JObj [(''model'', JStr ''claude-3-opus-20240229''),
                                  (''usage'', JObj [(''input_tokens'', JInt 5)])])]"
  have h1: "map_of ?d1 ''message'' = None"
    by simp
  have r1: "from_dict ?f ?d1 = Inr None"
    using from_dict_usage_gate [of ?d1 ?f] h1 by blast
  have h2: "map_of ?d2 ''message'' = Some (JObj ?m2) \<and> map_of ?m2 ''usage'' = Some (JObj [])"
    by simp
  have r2: "from_dict ?f ?d2 = Inr None"
    using from_dict_usage_gate [of ?d2 ?f] h2 by blast
  have h3: "from_dict ?f ?d3 =
     Inr (Some (mk_UsageEntry 1704067200000000 (JStr ''unknown'')
                  (JStr ''claude-3-opus-20240229'') (JInt 5) (JInt 0) (JInt 0) (JInt 0)))"
    by (simp add: from_dict_def from_dict_try_def dict_get_def dict_item_def)
  have r3: "\<exists>msg d. map_of ?d3 ''message'' = Some (JObj msg) \<and>
      map_of msg ''usage'' = Some (JObj d) \<and> d \<noteq> []"
    using from_dict_usage_gate [of ?d3 ?f] h3 by blast
  from h1 r1 h2 r2 h3 r3 show ?thesis by blast
qed

section \<open>Facts about the plan estimate\<close>

text \<open>The guard keeps the division away from a divisor of zero: no error is raised.\<close>

lemma percent_of_limit_value:
  "percent_of_limit used limit = Inr (if limit > 0 then used / limit * 100 else 0)"
  by (simp add: percent_of_limit_def py_truediv_def)

lemma estimate_plan_usage_with_None:
  "map_of plan_limits pl = None \<Longrightarrow> estimate_plan_usage_with plan_limits stats pl = Inr None"
  by (simp add: estimate_plan_usage_with_def)

lemma estimate_plan_usage_with_Some:
  "map_of plan_limits pl = Some limits \<Longrightarrow>
   estimate_plan_usage_with plan_limits stats pl =
     Inr (Some \<lparr>plan = pl,
                cost_used = total_cost stats,
                cost_limit = cost limits,
                cost_percent =
                  (if cost limits > 0 then total_cost stats / cost limits * 100 else 0),
                calls_used = total_calls stats,
                calls_limit = messages limits,
                calls_percent =
                  (if messages limits > 0
                   then of_int (total_calls stats) / of_int (messages limits) * 100
                   else 0)\<rparr>)"
  by (simp add: estimate_plan_usage_with_def percent_of_limit_value Let_def)

lemma PLAN_LIMITS_lookup:
  "map_of PLAN_LIMITS ''pro'' = Some \<lparr>tokens = 19000, cost = 18.0, messages = 250\<rparr>"
  "map_of PLAN_LIMITS ''max5'' = Some \<lparr>tokens = 88000, cost = 35.0, messages = 1000\<rparr>"
  "map_of PLAN_LIMITS ''max20'' = Some \<lparr>tokens = 220000, cost = 140.0, messages = 2000\<rparr>"
  "pl \<notin> {''pro'', ''max5'', ''max20''} \<Longrightarrow> map_of PLAN_LIMITS pl = None"
  by (simp_all add: PLAN_LIMITS_def)

section \<open>Claims about the pricing lookup and the tier label\<close>

lemma get_model_tier_cases:
  "get_model_tier name =
     (if str_contains (lower name) ''opus'' then ''Opus''
      else if str_contains (lower name) ''haiku'' then ''Haiku''
      else ''Sonnet'')"
  by (simp add: get_model_tier_def Let_def)

text \<open>
  C1. For every model name: when the name is a key of the table \<open>PRICING\<close>,
  \<open>get_pricing\<close> returns the entry of the table. Otherwise it classifies the lowercase
  form of the name by substring: a name containing \<open>opus\<close> gets the Opus rates
  (15.0 / 75.0 / 18.75 / 1.50), else a name containing \<open>haiku\<close> gets the Haiku rates
  (0.25 / 1.25 / 0.30 / 0.03), and every other name, an unlisted identifier included,
  gets the Sonnet rates (3.0 / 15.0 / 3.75 / 0.30).
\<close>

theorem get_pricing_lookup:
  "(\<forall>p. map_of PRICING name = Some p \<longrightarrow> get_pricing name = p) \<and>
   (map_of PRICING name = None \<longrightarrow>
      get_pricing name =
        (if (\<exists>ps ss. lower name = ps @ ''opus'' @ ss)
           then mk_ModelPricing 15.0 75.0 18.75 1.50
         else if (\<exists>ps ss. lower name = ps @ ''haiku'' @ ss)
           then mk_ModelPricing 0.25 1.25 0.30 0.03
         else mk_ModelPricing 3.0 15.0 3.75 0.30))"
proof (intro conjI allI impI)
  fix p
  assume "map_of PRICING name = Some p"
  then show "get_pricing name = p" by (rule get_pricing_hit)
next
  assume "map_of PRICING name = None"
  then show "get_pricing name =
        (if (\<exists>ps ss. lower name = ps @ ''opus'' @ ss)
           then mk_ModelPricing 15.0 75.0 18.75 1.50
         else if (\<exists>ps ss. lower name = ps @ ''haiku'' @ ss)
           then mk_ModelPricing 0.25 1.25 0.30 0.03
         else mk_ModelPricing 3.0 15.0 3.75 0.30)"
    by (simp only: get_pricing_miss str_contains_iff)
qed

theorem get_pricing_lookup_witness:
  "map_of PRICING ''claude-3-opus-20240229'' = Some (mk_ModelPricing 15.0 75.0 18.75 1.50) \<and>
   get_pricing ''claude-3-opus-20240229'' = mk_ModelPricing 15.0 75.0 18.75 1.50 \<and>
   map_of PRICING ''X-Haiku-2'' = None \<and>
   get_pricing ''X-Haiku-2'' = mk_ModelPricing 0.25 1.25 0.30 0.03 \<and>
   map_of PRICING ''claude-sonnet-9'' = None \<and>
   get_pricing ''claude-sonnet-9'' = mk_ModelPricing 3.0 15.0 3.75 0.30"
  using get_pricing_lookup [of "''claude-3-opus-20240229''"]
    get_pricing_lookup [of "''X-Haiku-2''", unfolded str_contains_iff [symmetric]]
    get_pricing_lookup [of "''claude-sonnet-9''", unfolded str_contains_iff [symmetric]]
  by (simp add: PRICING_def lower_def lower_char_def char_of_eq_iff)

text \<open>
  C8. For every model name, \<open>get_model_tier\<close> returns one of \<open>Opus\<close>, \<open>Haiku\<close>,
  \<open>Sonnet\<close>, by the substring rule of the pricing lookup (\<open>Sonnet\<close> when neither
  substring occurs), and \<open>get_pricing\<close> returns the rates of the tier that
  \<open>get_model_tier\<close> names, also for the names found in the table \<open>PRICING\<close>, which
  \<open>get_model_tier\<close> does not read.
\<close>

theorem get_model_tier_names_pricing:
  "get_model_tier name \<in> {''Opus'', ''Haiku'', ''Sonnet''} \<and>
   (get_model_tier name = ''Opus'' \<longleftrightarrow> (\<exists>ps ss. lower name = ps @ ''opus'' @ ss)) \<and>
   (get_model_tier name = ''Haiku'' \<longleftrightarrow>
      \<not> (\<exists>ps ss. lower name = ps @ ''opus'' @ ss) \<and>
      (\<exists>ps ss. lower name = ps @ ''haiku'' @ ss)) \<and>
   (get_model_tier name = ''Sonnet'' \<longleftrightarrow>
      \<not> (\<exists>ps ss. lower name = ps @ ''opus'' @ ss) \<and>
      \<not> (\<exists>ps ss. lower name = ps @ ''haiku'' @ ss)) \<and>
   (get_model_tier name = ''Opus'' \<longrightarrow>
      get_pricing name = mk_ModelPricing 15.0 75.0 18.75 1.50) \<and>
   (get_model_tier name = ''Haiku'' \<longrightarrow>
      get_pricing name = mk_ModelPricing 0.25 1.25 0.30 0.03) \<and>
   (get_model_tier name = ''Sonnet'' \<longrightarrow>
      get_pricing name = mk_ModelPricing 3.0 15.0 3.75 0.30)"
  unfolding str_contains_iff [symmetric]
  by (simp add: get_model_tier_cases get_pricing_by_tier)

theorem get_model_tier_names_pricing_witness:
  "get_model_tier ''claude-3-5-haiku-20241022'' = ''Haiku'' \<and>
   get_pricing ''claude-3-5-haiku-20241022'' = mk_ModelPricing 0.25 1.25 0.30 0.03 \<and>
   get_model_tier ''claude-opus-4-5-20251101'' = ''Opus'' \<and>
   get_pricing ''claude-opus-4-5-20251101'' = mk_ModelPricing 15.0 75.0 18.75 1.50 \<and>
   get_model_tier ''mystery'' = ''Sonnet'' \<and>
   get_pricing ''mystery'' = mk_ModelPricing 3.0 15.0 3.75 0.30"
  using get_model_tier_names_pricing
      [of "''claude-3-5-haiku-20241022''", unfolded str_contains_iff [symmetric]]
    get_model_tier_names_pricing
      [of "''claude-opus-4-5-20251101''", unfolded str_contains_iff [symmetric]]
    get_model_tier_names_pricing [of "''mystery''", unfolded str_contains_iff [symmetric]]
  by (simp add: get_model_tier_cases lower_def lower_char_def char_of_eq_iff)

text \<open>
  C10. For every model name that is not a key of the table \<open>PRICING\<close> and whose
  lowercase form contains both \<open>opus\<close> and \<open>haiku\<close>, \<open>get_pricing\<close> returns the Opus
  rates and \<open>get_model_tier\<close> returns \<open>Opus\<close>: both functions test \<open>opus\<close> first.
\<close>

theorem opus_before_haiku:
  assumes "map_of PRICING name = None"
    and "\<exists>ps ss. lower name = ps @ ''opus'' @ ss"
    and "\<exists>ps ss. lower name = ps @ ''haiku'' @ ss"
  shows "get_pricing name = mk_ModelPricing 15.0 75.0 18.75 1.50 \<and>
         get_model_tier name = ''Opus''"
proof -
  from assms(2) have "str_contains (lower name) ''opus''"
    by (simp only: str_contains_iff)
  then show ?thesis
    using assms(1) by (simp add: get_pricing_miss get_model_tier_cases)
qed

theorem opus_before_haiku_witness:
  "map_of PRICING ''Haiku-OPUS-mix'' = None \<and>
   (\<exists>ps ss. lower ''Haiku-OPUS-mix'' = ps @ ''opus'' @ ss) \<and>
   (\<exists>ps ss. lower ''Haiku-OPUS-mix'' = ps @ ''haiku'' @ ss) \<and>
   get_pricing ''Haiku-OPUS-mix'' = mk_ModelPricing 15.0 75.0 18.75 1.50 \<and>
   get_model_tier ''Haiku-OPUS-mix'' = ''Opus''"
proof -
  have a: "map_of PRICING ''Haiku-OPUS-mix'' = None"
    by (simp add: PRICING_def)
  have b: "\<exists>ps ss. lower ''Haiku-OPUS-mix'' = ps @ ''opus'' @ ss"
    unfolding str_contains_iff [symmetric]
    by (simp add: lower_def lower_char_def char_of_eq_iff)
  have c: "\<exists>ps ss. lower ''Haiku-OPUS-mix'' = ps @ ''haiku'' @ ss"
    unfolding str_contains_iff [symmetric]
    by (simp add: lower_def lower_char_def char_of_eq_iff)
  from opus_before_haiku [OF a b c] a b c show ?thesis by blast
qed

section \<open>Claims about the period filter\<close>

text \<open>
  C5. For every record list, with no day-count: when no bound is given,
  \<open>filter_by_period\<close> returns its input list; when both bounds are given it keeps the
  records with \<open>start \<le> timestamp \<le> end\<close>, both bounds inclusive; when one bound is
  given it tests that side only; the records kept are in the order of the input
  (\<open>filter\<close> keeps the order).
\<close>

theorem filter_by_period_bounds:
  "filter_by_period now1 now2 entries None None None = entries \<and>
   filter_by_period now1 now2 entries None (Some s) (Some e) =
     filter (\<lambda>r. s \<le> timestamp r \<and> timestamp r \<le> e) entries \<and>
   filter_by_period now1 now2 entries None (Some s) None =
     filter (\<lambda>r. s \<le> timestamp r) entries \<and>
   filter_by_period now1 now2 entries None None (Some e) =
     filter (\<lambda>r. timestamp r \<le> e) entries"
  by (simp add: filter_by_period_no_days filter_loop_filter)

theorem filter_by_period_bounds_witness:
  "filter_by_period 0 0
     [mk_UsageEntry 10 ''a'' ''m'' (1::int) 1 1 1, mk_UsageEntry 20 ''b'' ''m'' 1 1 1 1,
      mk_UsageEntry 30 ''c'' ''m'' 1 1 1 1, mk_UsageEntry 15 ''d'' ''m'' 1 1 1 1]
     None (Some 15) (Some 30) =
   [mk_UsageEntry 20 ''b'' ''m'' 1 1 1 1, mk_UsageEntry 30 ''c'' ''m'' 1 1 1 1,
    mk_UsageEntry 15 ''d'' ''m'' 1 1 1 1]"
  using filter_by_period_bounds
    [of 0 0 "[mk_UsageEntry 10 ''a'' ''m'' (1::int) 1 1 1, mk_UsageEntry 20 ''b'' ''m'' 1 1 1 1,
              mk_UsageEntry 30 ''c'' ''m'' 1 1 1 1, mk_UsageEntry 15 ''d'' ''m'' 1 1 1 1]" 15 30]
  by (simp add: mk_UsageEntry_def)

text \<open>
  C9. When a day-count \<open>d\<close> is given, \<open>filter_by_period\<close> does not use the explicit
  bounds: for every record list and all explicit bounds the result is the list of the
  records with \<open>now1 - d days \<le> timestamp \<le> now2\<close>, where \<open>now1\<close> and \<open>now2\<close>
  are the clock values read, and so it is the result for the day-count alone. The
  day-count replaces the bounds, it does not intersect with them.
\<close>

theorem filter_by_period_days_replace_bounds:
  "filter_by_period now1 now2 entries (Some d) start stop =
     filter_by_period now1 now2 entries (Some d) None None \<and>
   filter_by_period now1 now2 entries (Some d) start stop =
     filter (\<lambda>r. now1 - d * 86400000000 \<le> timestamp r \<and> timestamp r \<le> now2) entries"
  by (simp add: filter_by_period_days filter_loop_filter timedelta_days_def)

theorem filter_by_period_days_replace_bounds_witness:
  "filter_by_period 864000000000 864000000000
     [mk_UsageEntry 1 ''a'' ''m'' (1::int) 1 1 1,
      mk_UsageEntry 800000000000 ''b'' ''m'' 1 1 1 1]
     (Some 1) (Some 0) (Some 5) =
   [mk_UsageEntry 800000000000 ''b'' ''m'' 1 1 1 1] \<and>
   filter_by_period 864000000000 864000000000
     [mk_UsageEntry 1 ''a'' ''m'' (1::int) 1 1 1,
      mk_UsageEntry 800000000000 ''b'' ''m'' 1 1 1 1]
     (Some 1) None None =
   [mk_UsageEntry 800000000000 ''b'' ''m'' 1 1 1 1]"
proof -
  note t = filter_by_period_days_replace_bounds
    [of 864000000000 864000000000
        "[mk_UsageEntry 1 ''a'' ''m'' (1::int) 1 1 1,
          mk_UsageEntry 800000000000 ''b'' ''m'' 1 1 1 1]" 1 "Some 0" "Some 5"]
  have b: "filter_by_period 864000000000 864000000000
     [mk_UsageEntry 1 ''a'' ''m'' (1::int) 1 1 1,
      mk_UsageEntry 800000000000 ''b'' ''m'' 1 1 1 1]
     (Some 1) (Some 0) (Some 5) =
   [mk_UsageEntry 800000000000 ''b'' ''m'' 1 1 1 1]"
    unfolding t [THEN conjunct2] by (simp add: mk_UsageEntry_def)
  with t [THEN conjunct1] show ?thesis by simp
qed

text \<open>
  C7, as stated: for every window (no bounds, a day-count, or explicit bounds) and every
  record list, filtering the filtered list again gives the filtered list. With a
  day-count each call computes its bounds from the clock, so the statement fails when
  the clock advances between the two calls: a record one day old at the first call is
  kept, and one microsecond later the second call drops it.
\<close>

theorem filter_by_period_idempotent_counterexample:
  "filter_by_period 86400000001 86400000001
     (filter_by_period 86400000000 86400000000
        [mk_UsageEntry 0 ''a'' ''m'' (1::int) 1 1 1] (Some 1) None None)
     (Some 1) None None
   \<noteq> filter_by_period 86400000000 86400000000
        [mk_UsageEntry 0 ''a'' ''m'' (1::int) 1 1 1] (Some 1) None None"
  by (simp add: filter_by_period_def timedelta_days_def mk_UsageEntry_def)

text \<open>
  C7, amended: filtering is idempotent for every window without a day-count (no bounds
  or explicit bounds, whatever the clock shows at either call), and for every window,
  a day-count included, when both calls read the same clock values \<open>now1\<close> and
  \<open>now2\<close>.
\<close>

theorem filter_by_period_idempotent:
  "filter_by_period now3 now4
     (filter_by_period now1 now2 entries None start stop) None start stop =
     filter_by_period now1 now2 entries None start stop \<and>
   filter_by_period now1 now2
     (filter_by_period now1 now2 entries days start stop) days start stop =
     filter_by_period now1 now2 entries days start stop"
proof
  show "filter_by_period now3 now4
     (filter_by_period now1 now2 entries None start stop) None start stop =
     filter_by_period now1 now2 entries None start stop"
    by (simp add: filter_by_period_no_days filter_loop_idem)
next
  show "filter_by_period now1 now2
     (filter_by_period now1 now2 entries days start stop) days start stop =
     filter_by_period now1 now2 entries days start stop"
  proof (cases days)
    case None
    then show ?thesis by (simp add: filter_by_period_no_days filter_loop_idem)
  next
    case (Some d)
    then show ?thesis by (simp add: filter_by_period_days filter_loop_idem)
  qed
qed

theorem filter_by_period_idempotent_witness:
  "filter_by_period 86400000000 86400000000
     (filter_by_period 86400000000 86400000000
        [mk_UsageEntry 0 ''a'' ''m'' (1::int) 1 1 1, mk_UsageEntry (-1) ''b'' ''m'' 1 1 1 1]
        (Some 1) None None)
     (Some 1) None None =
   [mk_UsageEntry 0 ''a'' ''m'' (1::int) 1 1 1]"
proof -
  have "filter_by_period 86400000000 86400000000
        [mk_UsageEntry 0 ''a'' ''m'' (1::int) 1 1 1, mk_UsageEntry (-1) ''b'' ''m'' 1 1 1 1]
        (Some 1) None None =
      [mk_UsageEntry 0 ''a'' ''m'' (1::int) 1 1 1]"
    by (simp add: filter_by_period_days timedelta_days_def mk_UsageEntry_def)
  with filter_by_period_idempotent
    [of 0 0 86400000000 86400000000
        "[mk_UsageEntry 0 ''a'' ''m'' (1::int) 1 1 1, mk_UsageEntry (-1) ''b'' ''m'' 1 1 1 1]"
        None None "Some 1", THEN conjunct2]
  show ?thesis by (simp only:)
qed

section \<open>Claims about the aggregation\<close>

text \<open>
  C3. For every list of usage records, the aggregated \<open>PeriodStats\<close> has
  \<open>total_calls\<close> equal to the length of the list, and \<open>total_tokens\<close> equal to the
  sum, over the records of the list, of the four token counters of the record (input,
  output, cache creation, cache read).
\<close>

theorem aggregate_stats_totals:
  "total_calls (aggregate_stats now entries) = int (length entries) \<and>
   total_tokens (aggregate_stats now entries) =
     (\<Sum>e\<leftarrow>entries. input_tokens (usage e) + output_tokens (usage e) +
        cache_creation_input_tokens (usage e) + cache_read_input_tokens (usage e))"
proof (cases "entries = []")
  case True
  then show ?thesis
    by (simp add: aggregate_stats_empty total_calls_def total_tokens_def)
next
  case False
  have "total_calls (aggregate_stats now entries) = int (length entries)"
    using False
    by (simp add: aggregate_stats_nonempty total_calls_def aggregate_loop_calls)
  moreover have "total_tokens (aggregate_stats now entries) =
      (\<Sum>e\<leftarrow>entries. usage_total_tokens (usage e))"
    using False
    by (simp add: aggregate_stats_nonempty total_tokens_def aggregate_loop_tokens)
  ultimately show ?thesis
    by (simp add: usage_total_tokens_def)
qed

theorem aggregate_stats_totals_witness:
  "total_calls (aggregate_stats 0
     [mk_UsageEntry 10 ''s1'' ''claude-3-opus-20240229'' 1 2 3 4,
      mk_UsageEntry 20 ''s1'' ''claude-3-haiku-20240307'' 10 20 30 40,
      mk_UsageEntry 30 ''s2'' ''claude-3-opus-20240229'' 100 200 300 400]) = 3 \<and>
   total_tokens (aggregate_stats 0
     [mk_UsageEntry 10 ''s1'' ''claude-3-opus-20240229'' 1 2 3 4,
      mk_UsageEntry 20 ''s1'' ''claude-3-haiku-20240307'' 10 20 30 40,
      mk_UsageEntry 30 ''s2'' ''claude-3-opus-20240229'' 100 200 300 400]) = 1110"
  using aggregate_stats_totals
    [of 0 "[mk_UsageEntry 10 ''s1'' ''claude-3-opus-20240229'' 1 2 3 4,
            mk_UsageEntry 20 ''s1'' ''claude-3-haiku-20240307'' 10 20 30 40,
            mk_UsageEntry 30 ''s2'' ''claude-3-opus-20240229'' 100 200 300 400]"]
  by (simp add: mk_UsageEntry_def)

text \<open>
  C4. On the empty list \<open>aggregate_stats\<close> returns a \<open>PeriodStats\<close> with start and end
  both equal to the current time, an empty dict of models and \<open>session_count\<close> 0, whose
  \<open>total_tokens\<close> and \<open>total_calls\<close> are 0: a value, not an error. On a non-empty
  list the start is the timestamp of the first record and the end is the timestamp of
  the last record.
\<close>

theorem aggregate_stats_period:
  "aggregate_stats now [] =
     \<lparr>period_start = now, period_end = now, models = [], session_count = 0\<rparr> \<and>
   total_tokens (aggregate_stats now []) = 0 \<and>
   total_calls (aggregate_stats now []) = 0 \<and>
   (entries \<noteq> [] \<longrightarrow>
      period_start (aggregate_stats now entries) = timestamp (hd entries) \<and>
      period_end (aggregate_stats now entries) = timestamp (last entries))"
  by (simp add: aggregate_stats_empty aggregate_stats_nonempty total_tokens_def
      total_calls_def)

theorem aggregate_stats_period_witness:
  "[mk_UsageEntry 10 ''s1'' ''claude-3-opus-20240229'' 1 2 3 4,
    mk_UsageEntry 20 ''s1'' ''claude-3-haiku-20240307'' 10 20 30 40,
    mk_UsageEntry 30 ''s2'' ''claude-3-opus-20240229'' 100 200 300 400] \<noteq> [] \<and>
   period_start (aggregate_stats 0
     [mk_UsageEntry 10 ''s1'' ''claude-3-opus-20240229'' 1 2 3 4,
      mk_UsageEntry 20 ''s1'' ''claude-3-haiku-20240307'' 10 20 30 40,
      mk_UsageEntry 30 ''s2'' ''claude-3-opus-20240229'' 100 200 300 400]) = 10 \<and>
   period_end (aggregate_stats 0
     [mk_UsageEntry 10 ''s1'' ''claude-3-opus-20240229'' 1 2 3 4,
      mk_UsageEntry 20 ''s1'' ''claude-3-haiku-20240307'' 10 20 30 40,
      mk_UsageEntry 30 ''s2'' ''claude-3-opus-20240229'' 100 200 300 400]) = 30"
  using aggregate_stats_period
    [of 0 "[mk_UsageEntry 10 ''s1'' ''claude-3-opus-20240229'' 1 2 3 4,
            mk_UsageEntry 20 ''s1'' ''claude-3-haiku-20240307'' 10 20 30 40,
            mk_UsageEntry 30 ''s2'' ''claude-3-opus-20240229'' 100 200 300 400]"]
  by (simp add: mk_UsageEntry_def)

section \<open>Claims about record parsing\<close>

text \<open>
  C6, as stated: for every decoded log line (a dict) whose message lacks a usage block
  or whose usage block is empty, \<open>from_dict\<close> returns \<open>None\<close>, and it builds a
  \<open>UsageEntry\<close> only when a non-empty usage block is present. The code does not do
  this on a line whose message is present and is not a dict, such as
  \<open>{"timestamp": "2024-01-01T00:00:00Z", "sessionId": "s1", "message": null}\<close>. The
  message holds no usage block, \<open>data.get("message", {})\<close> is \<open>None\<close>, and the call
  \<open>message.get("usage", {})\<close> raises \<open>AttributeError\<close>. The handler catches
  \<open>KeyError\<close> and \<open>ValueError\<close> only, so \<open>from_dict\<close> raises instead of returning
  \<open>None\<close>, whatever \<open>datetime.fromisoformat\<close> does.
\<close>

theorem from_dict_null_message_raises:
  "from_dict fromisoformat
     [(''timestamp'', JStr ''2024-01-01T00:00:00Z''), (''sessionId'', JStr ''s1''),
      (''message'', JNull)] = Inl AttributeError \<and>
   from_dict fromisoformat
     [(''timestamp'', JStr ''2024-01-01T00:00:00Z''), (''sessionId'', JStr ''s1''),
      (''message'', JNull)] \<noteq> Inr None"
  by (simp add: from_dict_def from_dict_try_def dict_get_def)

section \<open>Claims about the plan estimate\<close>

text \<open>
  C2. For every \<open>PeriodStats\<close> value and every plan name: \<open>estimate_plan_usage\<close>
  returns \<open>None\<close> when the name is not one of \<open>pro\<close>, \<open>max5\<close>, \<open>max20\<close>. For these
  three plans it returns the cost used, equal to the total cost of the period; the cost
  limit of the plan (18.00, 35.00, 140.00); the cost percent, used / limit \<times> 100, with
  no ceiling; the calls used, equal to the total call count of the period; the call limit
  of the plan (250, 1000, 2000); and the calls percent, computed the same way. For any
  table of plan limits the function raises no error: a percent is 0 when its limit is 0,
  and the division is not reached.
\<close>

theorem estimate_plan_usage_result:
  "(pl \<notin> {''pro'', ''max5'', ''max20''} \<longrightarrow> estimate_plan_usage stats pl = Inr None) \<and>
   estimate_plan_usage stats ''pro'' =
     Inr (Some \<lparr>plan = ''pro'', cost_used = total_cost stats, cost_limit = 18,
                cost_percent = total_cost stats / 18 * 100,
                calls_used = total_calls stats, calls_limit = 250,
                calls_percent = of_int (total_calls stats) / 250 * 100\<rparr>) \<and>
   estimate_plan_usage stats ''max5'' =
     Inr (Some \<lparr>plan = ''max5'', cost_used = total_cost stats, cost_limit = 35,
                cost_percent = total_cost stats / 35 * 100,
                calls_used = total_calls stats, calls_limit = 1000,
                calls_percent = of_int (total_calls stats) / 1000 * 100\<rparr>) \<and>
   estimate_plan_usage stats ''max20'' =
     Inr (Some \<lparr>plan = ''max20'', cost_used = total_cost stats, cost_limit = 140,
                cost_percent = total_cost stats / 140 * 100,
                calls_used = total_calls stats, calls_limit = 2000,
                calls_percent = of_int (total_calls stats) / 2000 * 100\<rparr>) \<and>
   (\<forall>limits. map_of plan_limits pl = Some limits \<longrightarrow>
      (\<exists>r. estimate_plan_usage_with plan_limits stats pl = Inr (Some r) \<and>
           cost_used r = total_cost stats \<and>
           cost_limit r = cost limits \<and>
           (cost limits = 0 \<longrightarrow> cost_percent r = 0) \<and>
           (cost limits > 0 \<longrightarrow> cost_percent r = total_cost stats / cost limits * 100) \<and>
           calls_used r = total_calls stats \<and>
           calls_limit r = messages limits \<and>
           (messages limits = 0 \<longrightarrow> calls_percent r = 0) \<and>
           (messages limits > 0 \<longrightarrow>
              calls_percent r = of_int (total_calls stats) / of_int (messages limits) * 100)))"
proof (intro conjI allI impI)
  assume "pl \<notin> {''pro'', ''max5'', ''max20''}"
  then show "estimate_plan_usage stats pl = Inr None"
    unfolding estimate_plan_usage_def
    by (intro estimate_plan_usage_with_None PLAN_LIMITS_lookup(4))
next
  show "estimate_plan_usage stats ''pro'' =
     Inr (Some \<lparr>plan = ''pro'', cost_used = total_cost stats, cost_limit = 18,
                cost_percent = total_cost stats / 18 * 100,
                calls_used = total_calls stats, calls_limit = 250,
                calls_percent = of_int (total_calls stats) / 250 * 100\<rparr>)"
    by (simp add: estimate_plan_usage_def
        estimate_plan_usage_with_Some [OF PLAN_LIMITS_lookup(1)])
next
  show "estimate_plan_usage stats ''max5'' =
     Inr (Some \<lparr>plan = ''max5'', cost_used = total_cost stats, cost_limit = 35,
                cost_percent = total_cost stats / 35 * 100,
                calls_used = total_calls stats, calls_limit = 1000,
                calls_percent = of_int (total_calls stats) / 1000 * 100\<rparr>)"
    by (simp add: estimate_plan_usage_def
        estimate_plan_usage_with_Some [OF PLAN_LIMITS_lookup(2)])
next
  show "estimate_plan_usage stats ''max20'' =
     Inr (Some \<lparr>plan = ''max20'', cost_used = total_cost stats, cost_limit = 140,
                cost_percent = total_cost stats / 140 * 100,
                calls_used = total_calls stats, calls_limit = 2000,
                calls_percent = of_int (total_calls stats) / 2000 * 100\<rparr>)"
    by (simp add: estimate_plan_usage_def
        estimate_plan_usage_with_Some [OF PLAN_LIMITS_lookup(3)])
next
  fix limits
  assume "map_of plan_limits pl = Some limits"
  then show "\<exists>r. estimate_plan_usage_with plan_limits stats pl = Inr (Some r) \<and>
           cost_used r = total_cost stats \<and>
           cost_limit r = cost limits \<and>
           (cost limits = 0 \<longrightarrow> cost_percent r = 0) \<and>
           (cost limits > 0 \<longrightarrow> cost_percent r = total_cost stats / cost limits * 100) \<and>
           calls_used r = total_calls stats \<and>
           calls_limit r = messages limits \<and>
           (messages limits = 0 \<longrightarrow> calls_percent r = 0) \<and>
           (messages limits > 0 \<longrightarrow>
              calls_percent r = of_int (total_calls stats) / of_int (messages limits) * 100)"
    by (simp add: estimate_plan_usage_with_Some)
qed

theorem estimate_plan_usage_result_witness:
  "''team'' \<notin> {''pro'', ''max5'', ''max20''} \<and>
   estimate_plan_usage
     \<lparr>period_start = 0, period_end = 1,
      models = [(''claude-3-opus-20240229'',
                 \<lparr>stats_model = ''claude-3-opus-20240229'', total_input = 2000000,
                  total_output = 1000000, total_cache_create = 0, total_cache_read = 0,
                  call_count = 300\<rparr>)],
      session_count = 1\<rparr> ''team'' = Inr None \<and>
   estimate_plan_usage
     \<lparr>period_start = 0, period_end = 1,
      models = [(''claude-3-opus-20240229'',
                 \<lparr>stats_model = ''claude-3-opus-20240229'', total_input = 2000000,
                  total_output = 1000000, total_cache_create = 0, total_cache_read = 0,
                  call_count = 300\<rparr>)],
      session_count = 1\<rparr> ''pro'' =
     Inr (Some \<lparr>plan = ''pro'', cost_used = 105, cost_limit = 18,
                cost_percent = 1750 / 3, calls_used = 300, calls_limit = 250,
                calls_percent = 120\<rparr>) \<and>
   map_of [(''free'', \<lparr>tokens = 0, cost = 0, messages = 0\<rparr>)] ''free'' =
     Some \<lparr>tokens = 0, cost = 0, messages = 0\<rparr> \<and>
   (\<exists>r. estimate_plan_usage_with [(''free'', \<lparr>tokens = 0, cost = 0, messages = 0\<rparr>)]
          \<lparr>period_start = 0, period_end = 1,
           models = [(''claude-3-opus-20240229'',
                      \<lparr>stats_model = ''claude-3-opus-20240229'', total_input = 2000000,
                       total_output = 1000000, total_cache_create = 0, total_cache_read = 0,
                       call_count = 300\<rparr>)],
           session_count = 1\<rparr> ''free'' = Inr (Some r) \<and>
        cost_used r = 105 \<and> cost_percent r = 0 \<and>
        calls_used r = 300 \<and> calls_percent r = 0)"
proof -
  let ?stats = "\<lparr>period_start = 0, period_end = 1,
      models = [(''claude-3-opus-20240229'',
                 \<lparr>stats_model = ''claude-3-opus-20240229'', total_input = 2000000,
                  total_output = 1000000, total_cache_create = 0, total_cache_read = 0,
                  call_count = 300\<rparr>)],
      session_count = 1\<rparr>"
  let ?free = "[(''free'', \<lparr>tokens = 0, cost = 0, messages = 0\<rparr>)]"
  have c: "total_cost ?stats = 105"
    by (simp add: total_cost_def calculate_period_cost_def calculate_model_cost_def
        get_pricing_def PRICING_def mk_ModelPricing_def)
  have n: "total_calls ?stats = 300"
    by (simp add: total_calls_def)
  have h1: "''team'' \<notin> {''pro'', ''max5'', ''max20''}"
    by simp
  have h2: "map_of ?free ''free'' = Some \<lparr>tokens = 0, cost = 0, messages = 0\<rparr>"
    by simp
  note t1 = estimate_plan_usage_result [of "''team''" ?stats ?free]
  note t2 = estimate_plan_usage_result [of "''free''" ?stats ?free]
  have r1: "estimate_plan_usage ?stats ''team'' = Inr None"
    using t1 h1 by blast
  have r2: "estimate_plan_usage ?stats ''pro'' =
     Inr (Some \<lparr>plan = ''pro'', cost_used = 105, cost_limit = 18,
                cost_percent = 1750 / 3, calls_used = 300, calls_limit = 250,
                calls_percent = 120\<rparr>)"
    using t1 [THEN conjunct2, THEN conjunct1] by (simp add: c n)
  have r3: "\<exists>r. estimate_plan_usage_with ?free ?stats ''free'' = Inr (Some r) \<and>
        cost_used r = 105 \<and> cost_percent r = 0 \<and>
        calls_used r = 300 \<and> calls_percent r = 0"
    using t2 h2 by (auto simp: c n)
  from h1 r1 r2 h2 r3 show ?thesis by blast
qed

end
